theory Spec2Isabelle
  imports Complex_Main
begin

section \<open>Python values and exceptions\<close>

text \<open>
  The plugins keep every statistic in a Python \<open>dict\<close> keyed by field name whose
  values are integers, floats, strings, booleans or \<open>None\<close>.  Floats are modelled by
  exact rationals.  An exception is a value of type \<open>error\<close>; a computation that may
  raise returns \<open>error + 'a\<close> with \<open>Inl\<close> for the exception.
\<close>

datatype error =
    KeyError
  | ValueError
  | IndexError
  | TypeError
  | AttributeError
  | UnboundLocalError
  | FileNotFoundError
  | CalledProcessError int
  | UnicodeDecodeError

datatype pyval = VNone | VBool bool | VInt int | VFloat rat | VStr string

type_synonym pydict = "string \<rightharpoonup> pyval"

section \<open>Rate engine\<close>

text \<open>
  \<open>fields_description\<close> of the network plugin: per field the human readable
  description, the optional \<open>rate\<close> flag and the optional \<open>unit\<close>.
\<close>

record field_description =
  description :: string
  rate :: "bool option"
  unit :: "string option"

definition fields_description :: "(string \<times> field_description) list" where
  "fields_description =
     [(''interface_name'',
         \<lparr>description = ''Interface name.'', rate = None, unit = None\<rparr>),
      (''alias'',
         \<lparr>description = ''Interface alias name (optional).'', rate = None, unit = None\<rparr>),
      (''bytes_recv'',
         \<lparr>description = ''Number of bytes received.'', rate = Some True,
          unit = Some ''byte''\<rparr>),
      (''bytes_sent'',
         \<lparr>description = ''Number of bytes sent.'', rate = Some True,
          unit = Some ''byte''\<rparr>),
      (''bytes_all'',
         \<lparr>description = ''Number of bytes received and sent.'', rate = Some True,
          unit = Some ''byte''\<rparr>),
      (''speed'',
         \<lparr>description =
            ''Maximum interface speed (in bit per second). Can return 0 on some operating systems.'',
          rate = None, unit = Some ''bitpersecond''\<rparr>),
      (''is_up'',
         \<lparr>description = ''Is the interface up?'', rate = None, unit = Some ''bool''\<rparr>)]"

text \<open>The fields whose description carries \<open>'rate': True\<close>, in declaration order.\<close>

definition rate_fields :: "string list" where
  "rate_fields = map fst (filter (\<lambda>(f, d). rate d = Some True) fields_description)"

text \<open>
  A sample: the counters of one source at one instant of the monotonic clock.
\<close>

record Sample =
  source_id :: string
  counters :: "string \<rightharpoonup> int"
  timestamp :: rat

text \<open>
  Modelled from the spec: \<open>compute_rate\<close> (the rate decorator of the plugin base class is
  not part of the sources).  The rate is unavailable (\<open>None\<close>) when there is no previous
  sample, when the elapsed time is not positive, or when the counter decreased; a counter
  that one of the samples does not hold is unavailable as well.  Otherwise it is the
  counter delta over the elapsed seconds.
\<close>

definition compute_rate :: "Sample option \<Rightarrow> Sample \<Rightarrow> string \<Rightarrow> rat option" where
  "compute_rate previous current counter =
     (case previous of
        None \<Rightarrow> None
      | Some p \<Rightarrow>
          (let elapsed_seconds = timestamp current - timestamp p in
           if elapsed_seconds \<le> 0 then None
           else
             (case (counters p counter, counters current counter) of
                (Some a, Some b) \<Rightarrow>
                  if b < a then None
                  else Some ((of_int b - of_int a) / elapsed_seconds)
              | _ \<Rightarrow> None)))"

text \<open>
  Modelled from the spec: a field with \<open>rate = True\<close> derives a \<open>_rate_per_sec\<close>
  sibling from the two samples; a field whose rate is unavailable derives none this tick.
\<close>

definition add_rate_field ::
  "Sample option \<Rightarrow> Sample \<Rightarrow> string \<Rightarrow> (string \<rightharpoonup> rat) \<Rightarrow> (string \<rightharpoonup> rat)" where
  "add_rate_field previous current f stat =
     (case compute_rate previous current f of
        None \<Rightarrow> stat
      | Some r \<Rightarrow> stat(f @ ''_rate_per_sec'' \<mapsto> r))"

definition derive_rate_fields :: "Sample option \<Rightarrow> Sample \<Rightarrow> (string \<rightharpoonup> rat)" where
  "derive_rate_fields previous current =
     fold (add_rate_field previous current) rate_fields Map.empty"

section \<open>Threshold classifier\<close>

datatype severity = DEFAULT | CAREFUL | WARNING | CRITICAL

record ThresholdSet =
  careful_bound :: rat
  warning_bound :: rat
  critical_bound :: rat

text \<open>
  The thresholds a metric is classified with: the explicitly configured set, if any, and
  the percentages of the maximum to fall back to (a configuration concern).
\<close>

record thresholds =
  explicit :: "ThresholdSet option"
  percent_of_maximum :: ThresholdSet

text \<open>
  Modelled from the spec: the direct comparison of the classifier (the alert method of
  the plugin base class is not part of the sources): critical first, then warning, then
  careful, each bound an inclusive lower bound.
\<close>

definition compare_bounds :: "rat \<Rightarrow> ThresholdSet \<Rightarrow> severity" where
  "compare_bounds v ts =
     (if v \<ge> critical_bound ts then CRITICAL
      else if v \<ge> warning_bound ts then WARNING
      else if v \<ge> careful_bound ts then CAREFUL
      else DEFAULT)"

definition scale_to_maximum :: "ThresholdSet \<Rightarrow> rat \<Rightarrow> ThresholdSet" where
  "scale_to_maximum pct m =
     \<lparr>careful_bound = careful_bound pct * m / 100,
      warning_bound = warning_bound pct * m / 100,
      critical_bound = critical_bound pct * m / 100\<rparr>"

text \<open>
  Modelled from the spec: \<open>classify\<close>.  An explicit threshold set is compared directly;
  without one a known maximum gives percentage-of-maximum bounds; with neither the
  severity is \<open>DEFAULT\<close>.
\<close>

definition classify :: "rat \<Rightarrow> thresholds \<Rightarrow> rat option \<Rightarrow> severity" where
  "classify v th maximum =
     (case explicit th of
        Some ts \<Rightarrow> compare_bounds v ts
      | None \<Rightarrow>
          (case maximum of
             Some m \<Rightarrow> compare_bounds v (scale_to_maximum (percent_of_maximum th) m)
           | None \<Rightarrow> DEFAULT))"

section \<open>Python string operations\<close>

text \<open>
  Characters are code points below 256.  \<open>is_space\<close> is the whitespace of
  \<open>str.split()\<close>, \<open>str.strip()\<close> and \<open>int()\<close>; \<open>is_linebreak\<close> is the line
  boundary of \<open>str.splitlines()\<close>.
\<close>

definition is_space :: "char \<Rightarrow> bool" where
  "is_space c =
     (let n = (of_char c :: nat)
      in (9 \<le> n \<and> n \<le> 13) \<or> (28 \<le> n \<and> n \<le> 32) \<or> n = 133 \<or> n = 160)"

definition is_linebreak :: "char \<Rightarrow> bool" where
  "is_linebreak c =
     (let n = (of_char c :: nat)
      in (10 \<le> n \<and> n \<le> 13) \<or> (28 \<le> n \<and> n \<le> 30) \<or> n = 133)"

definition is_digit :: "char \<Rightarrow> bool" where
  "is_digit c = (let n = (of_char c :: nat) in 48 \<le> n \<and> n \<le> 57)"

definition digit_val :: "char \<Rightarrow> nat" where
  "digit_val c = (of_char c :: nat) - 48"

text \<open>\<open>s.splitlines()\<close>: a carriage return followed by a line feed is one boundary;
  a final boundary opens no further line.\<close>

fun splitlines_acc :: "string \<Rightarrow> string \<Rightarrow> string list" where
  "splitlines_acc cur [] = (if cur = [] then [] else [cur])"
| "splitlines_acc cur [c] = (if is_linebreak c then [cur] else [cur @ [c]])"
| "splitlines_acc cur (c # d # cs) =
     (if c = CHR 0x0D \<and> d = CHR 0x0A then cur # splitlines_acc [] cs
      else if is_linebreak c then cur # splitlines_acc [] (d # cs)
      else splitlines_acc (cur @ [c]) (d # cs))"

definition splitlines :: "string \<Rightarrow> string list" where
  "splitlines s = splitlines_acc [] s"

text \<open>\<open>s.split()\<close>: the maximal runs of characters that are not whitespace.\<close>

fun split_acc :: "string \<Rightarrow> string \<Rightarrow> string list" where
  "split_acc cur [] = (if cur = [] then [] else [cur])"
| "split_acc cur (c # cs) =
     (if is_space c then (if cur = [] then split_acc [] cs else cur # split_acc [] cs)
      else split_acc (cur @ [c]) cs)"

definition split_ws :: "string \<Rightarrow> string list" where
  "split_ws s = split_acc [] s"

text \<open>\<open>p in s\<close> for strings: \<open>p\<close> occurs in \<open>s\<close> as a contiguous substring.\<close>

fun contains :: "string \<Rightarrow> string \<Rightarrow> bool" where
  "contains p [] = (p = [])"
| "contains p (c # cs) = (take (length p) (c # cs) = p \<or> contains p cs)"

text \<open>\<open>xs[-k]\<close> for \<open>k > 0\<close>: the \<open>k\<close>-th element from the end, or \<open>IndexError\<close>.\<close>

definition from_end :: "'a list \<Rightarrow> nat \<Rightarrow> error + 'a" where
  "from_end xs k =
     (if 0 < k \<and> k \<le> length xs then Inr (xs ! (length xs - k)) else Inl IndexError)"

text \<open>\<open>s.replace(c, '')\<close> for a one-character string \<open>c\<close>.\<close>

definition remove_char :: "char \<Rightarrow> string \<Rightarrow> string" where
  "remove_char c s = filter (\<lambda>d. d \<noteq> c) s"

definition strip :: "string \<Rightarrow> string" where
  "strip s = rev (dropWhile is_space (rev (dropWhile is_space s)))"

text \<open>
  \<open>int(s)\<close> for a string, base ten: surrounding whitespace is dropped, one sign is
  allowed, then digits follow, where single underscores may stand between two digits.
  Anything else is a \<open>ValueError\<close>.
\<close>

fun parse_digits :: "nat \<Rightarrow> string \<Rightarrow> nat option" where
  "parse_digits acc [] = Some acc"
| "parse_digits acc (c # cs) =
     (if c = CHR ''_'' then
        (case cs of
           [] \<Rightarrow> None
         | d # _ \<Rightarrow> if is_digit d then parse_digits acc cs else None)
      else if is_digit c then parse_digits (acc * 10 + digit_val c) cs
      else None)"

definition parse_unsigned :: "string \<Rightarrow> error + nat" where
  "parse_unsigned body =
     (case body of
        [] \<Rightarrow> Inl ValueError
      | c # _ \<Rightarrow>
          if is_digit c then
            (case parse_digits 0 body of None \<Rightarrow> Inl ValueError | Some n \<Rightarrow> Inr n)
          else Inl ValueError)"

definition int_of_str :: "string \<Rightarrow> error + int" where
  "int_of_str s =
     (case strip s of
        [] \<Rightarrow> Inl ValueError
      | c # body \<Rightarrow>
          if c = CHR ''-'' then map_sum id (\<lambda>n. - int n) (parse_unsigned body)
          else if c = CHR ''+'' then map_sum id int (parse_unsigned body)
          else map_sum id int (parse_unsigned (c # body)))"

text \<open>\<open>str(n)\<close> for an integer: its decimal digits, with a minus sign when negative.\<close>

fun str_nat :: "nat \<Rightarrow> string" where
  "str_nat n =
     (if n < 10 then [char_of (48 + n)]
      else str_nat (n div 10) @ [char_of (48 + n mod 10)])"

declare str_nat.simps [simp del]

definition str_int :: "int \<Rightarrow> string" where
  "str_int i = (if i < 0 then CHR ''-'' # str_nat (nat (- i)) else str_nat (nat i))"

section \<open>Cells of the curses interface\<close>

text \<open>
  \<open>curse_add_line\<close> and \<open>curse_new_line\<close> belong to the plugin base class, which is not
  part of the sources.  A cell records the call that made it: the message, and the
  decoration, width and alignment arguments when the call gives them.
\<close>

datatype cell =
    curse_add_line string "pyval option" "int option" "string option"
  | curse_new_line

section \<open>NVMe sensor plugin\<close>

text \<open>
  What the tool writes to its standard output, as \<open>universal_newlines=True\<close> reads it:
  bytes that decode to a text (line ends already translated), or bytes that the
  decoder refuses.
\<close>

datatype stdout = Text string | Undecodable

text \<open>
  What running the diagnostic tool can do: the binary is missing, so that starting it
  raises \<open>FileNotFoundError\<close>, or it runs and ends with an exit code and its output.
\<close>

datatype tool_run = NotInstalled | Exited int stdout

text \<open>\<open>subprocess.check_output\<close> in text mode.  The output is read and decoded before
  the exit code is looked at, so output that does not decode is a \<open>UnicodeDecodeError\<close>
  whatever the exit code; then a code other than \<open>0\<close> is a \<open>CalledProcessError\<close>, and
  code \<open>0\<close> returns the text.\<close>

definition check_output :: "tool_run \<Rightarrow> error + string" where
  "check_output run =
     (case run of
        NotInstalled \<Rightarrow> Inl FileNotFoundError
      | Exited rc Undecodable \<Rightarrow> Inl UnicodeDecodeError
      | Exited rc (Text out) \<Rightarrow> if rc = 0 then Inr out else Inl (CalledProcessError rc))"

text \<open>\<open>nvme_data\<close> is a dict from field name to integer, kept in insertion order.\<close>

type_synonym nvme_data = "(string \<times> int) list"

fun dict_set :: "string \<Rightarrow> int \<Rightarrow> nvme_data \<Rightarrow> nvme_data" where
  "dict_set k v [] = [(k, v)]"
| "dict_set k v ((k', v') # kvs) =
     (if k' = k then (k, v) # kvs else (k', v') # dict_set k v kvs)"

definition dict_get :: "nvme_data \<Rightarrow> string \<Rightarrow> error + int" where
  "dict_get d k = (case map_of d k of None \<Rightarrow> Inl KeyError | Some v \<Rightarrow> Inr v)"

text \<open>One iteration of the loop of \<open>parse_nvme_output\<close>.\<close>

definition parse_nvme_line :: "nvme_data \<Rightarrow> string \<Rightarrow> error + nvme_data" where
  "parse_nvme_line nvme_data line =
     (if contains ''Temperature:'' line then
        (case from_end (split_ws line) 2 of
           Inl e \<Rightarrow> Inl e
         | Inr w \<Rightarrow> map_sum id (\<lambda>n. dict_set ''temperature'' n nvme_data) (int_of_str w))
      else if contains ''Power Cycles:'' line then
        (case from_end (split_ws line) 1 of
           Inl e \<Rightarrow> Inl e
         | Inr w \<Rightarrow> map_sum id (\<lambda>n. dict_set ''power_cycles'' n nvme_data) (int_of_str w))
      else if contains ''Percentage Used:'' line then
        (case from_end (split_ws line) 1 of
           Inl e \<Rightarrow> Inl e
         | Inr w \<Rightarrow>
             map_sum id (\<lambda>n. dict_set ''percentage_used'' n nvme_data)
               (int_of_str (remove_char CHR ''%'' w)))
      else Inr nvme_data)"

fun parse_nvme_lines :: "nvme_data \<Rightarrow> string list \<Rightarrow> error + nvme_data" where
  "parse_nvme_lines nvme_data [] = Inr nvme_data"
| "parse_nvme_lines nvme_data (line # lines) =
     (case parse_nvme_line nvme_data line of
        Inl e \<Rightarrow> Inl e
      | Inr d \<Rightarrow> parse_nvme_lines d lines)"

definition parse_nvme_output :: "string \<Rightarrow> error + nvme_data" where
  "parse_nvme_output output = parse_nvme_lines [] (splitlines output)"

text \<open>
  \<open>GlancesGrabNVMe.get\<close>: only \<open>CalledProcessError\<close> is caught (the message it prints is
  not modelled); every other exception of the call or of the parser leaves the method.
\<close>

definition get :: "tool_run \<Rightarrow> error + nvme_data" where
  "get run =
     (case check_output run of
        Inl (CalledProcessError rc) \<Rightarrow> Inr []
      | Inl e \<Rightarrow> Inl e
      | Inr output \<Rightarrow> parse_nvme_output output)"

text \<open>
  A row of the plugin's \<open>stats\<close>: \<open>update\<close> is the only writer of the list, and every
  dict it appends has exactly the keys \<open>label\<close>, \<open>value\<close> and \<open>unit\<close>.
\<close>

record nvme_stat =
  label :: string
  val :: int
  unit_of :: string

text \<open>The plugin's state: its \<open>stats\<close>, and what \<open>is_disabled()\<close> answers.\<close>

record nvme_plugin =
  nvme_stats :: "nvme_stat list"
  nvme_is_disabled :: bool

text \<open>\<open>get_init_value()\<close>: a copy of the \<open>stats_init_value=[]\<close> given in \<open>__init__\<close>.\<close>

definition nvme_get_init_value :: "nvme_stat list" where
  "nvme_get_init_value = []"

text \<open>\<open>PluginModel.update\<close> of the NVMe plugin; the list it returns is the \<open>stats\<close> of
  the new state.  A non-empty \<open>nvme_data\<close> without a temperature is a \<open>KeyError\<close>.\<close>

definition nvme_update :: "nvme_plugin \<Rightarrow> tool_run \<Rightarrow> error + nvme_plugin" where
  "nvme_update self run =
     (case get run of
        Inl e \<Rightarrow> Inl e
      | Inr nvme_data \<Rightarrow>
          if nvme_data \<noteq> [] then
            (case dict_get nvme_data ''temperature'' of
               Inl e \<Rightarrow> Inl e
             | Inr t \<Rightarrow>
                 Inr (self\<lparr>nvme_stats :=
                        nvme_get_init_value @
                          [\<lparr>label = ''NVMe Temp'', val = t, unit_of = ''C''\<rparr>]\<rparr>))
          else Inr (self\<lparr>nvme_stats := nvme_get_init_value\<rparr>))"

text \<open>
  The loop of \<open>msg_curse\<close>.  \<open>label_max_width\<close> is \<open>None\<close> while the local variable is
  unbound; reading it then raises \<open>UnboundLocalError\<close>.
\<close>

fun nvme_rows :: "int option \<Rightarrow> cell list \<Rightarrow> nvme_stat list \<Rightarrow> error + cell list" where
  "nvme_rows label_max_width ret [] = Inr ret"
| "nvme_rows label_max_width ret (stat # rest) =
     (case label_max_width of
        None \<Rightarrow> Inl UnboundLocalError
      | Some w \<Rightarrow>
          nvme_rows label_max_width
            (ret @ [curse_new_line,
                    curse_add_line (label stat) None (Some w) None,
                    curse_add_line (str_int (val stat) @ '' '' @ unit_of stat) None None
                      (Some ''right'')])
            rest)"

text \<open>\<open>PluginModel.msg_curse\<close> of the NVMe plugin; \<open>max_width\<close> is \<open>None\<close> or an
  integer, and it is falsy when it is \<open>None\<close> or \<open>0\<close>.\<close>

definition nvme_msg_curse :: "nvme_plugin \<Rightarrow> int option \<Rightarrow> error + cell list" where
  "nvme_msg_curse self max_width =
     (if nvme_stats self = [] \<or> nvme_is_disabled self then Inr []
      else
        (let label_max_width =
               (case max_width of
                  None \<Rightarrow> None
                | Some mw \<Rightarrow> if mw \<noteq> 0 then Some (mw - 14) else None)
         in nvme_rows label_max_width
              [curse_add_line ''NVMe Stats'' (Some (VStr ''TITLE'')) None None]
              (nvme_stats self)))"

section \<open>Python operators on dict values\<close>

text \<open>Truthiness: \<open>None\<close>, \<open>False\<close>, zero and the empty string are falsy.\<close>

fun py_truthy :: "pyval \<Rightarrow> bool" where
  "py_truthy VNone = False"
| "py_truthy (VBool b) = b"
| "py_truthy (VInt n) = (n \<noteq> 0)"
| "py_truthy (VFloat r) = (r \<noteq> 0)"
| "py_truthy (VStr s) = (s \<noteq> [])"

text \<open>\<open>v != 0\<close>: a boolean compares as the integer it is; a string or \<open>None\<close> never
  equals \<open>0\<close>.\<close>

fun py_ne_zero :: "pyval \<Rightarrow> bool" where
  "py_ne_zero VNone = True"
| "py_ne_zero (VBool b) = b"
| "py_ne_zero (VInt n) = (n \<noteq> 0)"
| "py_ne_zero (VFloat r) = (r \<noteq> 0)"
| "py_ne_zero (VStr s) = True"

text \<open>\<open>a + b\<close>: numbers add (a boolean as \<open>0\<close> or \<open>1\<close>, a float making the sum a
  float), two strings concatenate, everything else is a \<open>TypeError\<close>.\<close>

fun py_add :: "pyval \<Rightarrow> pyval \<Rightarrow> error + pyval" where
  "py_add (VInt a) (VInt b) = Inr (VInt (a + b))"
| "py_add (VInt a) (VBool b) = Inr (VInt (a + of_bool b))"
| "py_add (VBool a) (VInt b) = Inr (VInt (of_bool a + b))"
| "py_add (VBool a) (VBool b) = Inr (VInt (of_bool a + of_bool b))"
| "py_add (VFloat a) (VFloat b) = Inr (VFloat (a + b))"
| "py_add (VFloat a) (VInt b) = Inr (VFloat (a + of_int b))"
| "py_add (VInt a) (VFloat b) = Inr (VFloat (of_int a + b))"
| "py_add (VFloat a) (VBool b) = Inr (VFloat (a + of_bool b))"
| "py_add (VBool a) (VFloat b) = Inr (VFloat (of_bool a + b))"
| "py_add (VStr a) (VStr b) = Inr (VStr (a @ b))"
| "py_add _ _ = Inl TypeError"

text \<open>\<open>v * k\<close> for an integer literal \<open>k\<close>: a string is repeated \<open>k\<close> times.\<close>

fun py_mul_int :: "pyval \<Rightarrow> int \<Rightarrow> error + pyval" where
  "py_mul_int VNone k = Inl TypeError"
| "py_mul_int (VBool b) k = Inr (VInt (of_bool b * k))"
| "py_mul_int (VInt n) k = Inr (VInt (n * k))"
| "py_mul_int (VFloat r) k = Inr (VFloat (r * of_int k))"
| "py_mul_int (VStr s) k = Inr (VStr (concat (replicate (nat k) s)))"

text \<open>\<open>int(v)\<close>: a float is truncated towards zero, a string is parsed.\<close>

fun py_int :: "pyval \<Rightarrow> error + int" where
  "py_int VNone = Inl TypeError"
| "py_int (VBool b) = Inr (of_bool b)"
| "py_int (VInt n) = Inr n"
| "py_int (VFloat r) = Inr (if r \<ge> 0 then \<lfloor>r\<rfloor> else \<lceil>r\<rceil>)"
| "py_int (VStr s) = int_of_str s"

text \<open>\<open>s[k:]\<close>: a negative start counts from the end, and the start is clipped to the
  string.\<close>

definition slice_from :: "string \<Rightarrow> int \<Rightarrow> string" where
  "slice_from s k =
     (let n = int (length s);
          start = (if k < 0 then max (n + k) 0 else min k n)
      in drop (nat start) s)"

text \<open>\<open>'{:{width}}'.format(s, width=w)\<close> for a string \<open>s\<close>: the format specification is
  the decimal rendering of \<open>w\<close>.  A negative width is a \<open>ValueError\<close> (a sign is not
  allowed in the specification of a string); otherwise \<open>s\<close> is padded on the right to at
  least \<open>w\<close> characters and never cut.\<close>

definition format_width :: "string \<Rightarrow> int \<Rightarrow> error + string" where
  "format_width s w =
     (if w < 0 then Inl ValueError
      else Inr (s @ replicate (nat w - length s) CHR '' ''))"

text \<open>\<open>f'{s:>n}'\<close> for a string \<open>s\<close> and a literal width \<open>n\<close>: padded on the left.\<close>

definition format_right :: "string \<Rightarrow> nat \<Rightarrow> string" where
  "format_right s n = replicate (n - length s) CHR '' '' @ s"

text \<open>\<open>s.split(':')[0]\<close>: the text before the first colon.\<close>

definition before_colon :: "string \<Rightarrow> string" where
  "before_colon s = takeWhile (\<lambda>c. c \<noteq> CHR '':'') s"

section \<open>Network plugin\<close>

text \<open>
  What the plugin takes from outside its own file: the methods of the plugin base class
  it calls (\<open>is_display\<close>, \<open>has_alias\<close>, \<open>filter_stats\<close>, \<open>get_alert\<close>, \<open>get_views\<close>,
  \<open>auto_unit\<close>, \<open>sorted_stats\<close>) and the decorator \<open>_manage_rate\<close> it puts around
  \<open>update_local\<close>, none of which is part of the sources, and the interpreter's rendering
  of a float in an f-string.  \<open>get_alert\<close> takes the current value, the \<open>maximum\<close> when
  the call gives one, and the header.  \<open>manage_rate\<close> takes the outcome of the decorated
  body, a list of stats or an exception, to the outcome of the method; what the
  decorator remembers of earlier ticks is part of the environment.
\<close>

record environment =
  is_display :: "string \<Rightarrow> bool"
  has_alias :: "string \<Rightarrow> string option"
  filter_stats :: "pydict \<Rightarrow> pydict"
  get_alert :: "int \<Rightarrow> pyval option \<Rightarrow> string \<Rightarrow> string"
  get_views :: "pyval \<Rightarrow> string \<Rightarrow> string \<Rightarrow> error + pyval"
  auto_unit :: "int \<Rightarrow> string"
  sorted_stats :: "pydict list \<Rightarrow> pydict list"
  manage_rate :: "error + pydict list \<Rightarrow> error + pydict list"
  float_str :: "rat \<Rightarrow> string"

text \<open>\<open>self.views\<close>: per item key and per field, the options of the view.\<close>

type_synonym views = "string \<rightharpoonup> (string \<rightharpoonup> (string \<rightharpoonup> pyval))"

text \<open>The attributes of the plugin that its methods read or write.\<close>

record network_plugin =
  stats :: "pydict list"
  views_of :: views
  is_disabled :: bool
  hide_zero :: bool
  hide_zero_fields :: "string list"
  hide_no_up :: bool
  hide_no_ip :: bool

text \<open>The command line switches \<open>msg_curse\<close> reads.\<close>

record args =
  network_cumul :: bool
  network_sum :: bool
  byte :: bool

definition get_key :: string where
  "get_key = ''interface_name''"

text \<open>\<open>str(v)\<close>, as an f-string renders a value.\<close>

fun py_str :: "environment \<Rightarrow> pyval \<Rightarrow> string" where
  "py_str env VNone = ''None''"
| "py_str env (VBool b) = (if b then ''True'' else ''False'')"
| "py_str env (VInt n) = str_int n"
| "py_str env (VFloat r) = float_str env r"
| "py_str env (VStr s) = s"

subsection \<open>\<open>update_local\<close>\<close>

text \<open>
  What \<open>psutil\<close> answers this tick: an \<open>OSError\<close>, or the per-interface counters (a dict
  in iteration order; each named tuple given by its fields) and the per-interface status.
  \<open>get_mac_address\<close> answers a string or \<open>None\<close>.
\<close>

datatype psutil_read =
    RaisesOSError
  | Snapshot "(string \<times> pydict) list" "string \<rightharpoonup> pydict"

definition item :: "pydict \<Rightarrow> string \<Rightarrow> error + pyval" where
  "item d k = (case d k of None \<Rightarrow> Inl KeyError | Some v \<Rightarrow> Inr v)"

text \<open>The statements of the loop body after the \<open>alias\<close> is stored: \<open>bytes_all\<close>, then
  \<open>speed\<close>.\<close>

definition add_bytes_all :: "pydict \<Rightarrow> error + pydict" where
  "add_bytes_all stat =
     (case item stat ''bytes_sent'' of
        Inl e \<Rightarrow> Inl e
      | Inr sent \<Rightarrow>
          (case item stat ''bytes_recv'' of
             Inl e \<Rightarrow> Inl e
           | Inr recv \<Rightarrow>
               (case py_add sent recv of
                  Inl e \<Rightarrow> Inl e
                | Inr both \<Rightarrow> Inr (stat(''bytes_all'' \<mapsto> both)))))"

definition convert_speed :: "pydict \<Rightarrow> error + pydict" where
  "convert_speed stat =
     (case item stat ''speed'' of
        Inl e \<Rightarrow> Inl e
      | Inr sp \<Rightarrow>
          (case py_mul_int sp 1048576 of
             Inl e \<Rightarrow> Inl e
           | Inr bps \<Rightarrow> Inr (stat(''speed'' \<mapsto> bps))))"

text \<open>The dict one interface contributes.\<close>

definition interface_stat ::
  "environment \<Rightarrow> (string \<Rightarrow> string option) \<Rightarrow> string \<Rightarrow> pydict \<Rightarrow> pydict \<Rightarrow> error + pydict" where
  "interface_stat env get_mac_address interface_name io_counters status =
     (let stat = filter_stats env io_counters ++ filter_stats env status;
          stat = stat(''key'' \<mapsto> VStr get_key);
          stat = stat(''interface_name'' \<mapsto> VStr interface_name);
          mac_address = get_mac_address interface_name;
          stat = stat(''mac_address'' \<mapsto>
                   (case mac_address of
                      None \<Rightarrow> VStr ''Unknown''
                    | Some m \<Rightarrow> if m \<noteq> [] then VStr m else VStr ''Unknown''));
          stat = stat(''alias'' \<mapsto>
                   (case has_alias env interface_name of None \<Rightarrow> VNone | Some a \<Rightarrow> VStr a))
      in case add_bytes_all stat of
           Inl e \<Rightarrow> Inl e
         | Inr stat \<Rightarrow> convert_speed stat)"

fun update_local_loop ::
  "environment \<Rightarrow> (string \<Rightarrow> string option) \<Rightarrow> (string \<rightharpoonup> pydict) \<Rightarrow>
     pydict list \<Rightarrow> (string \<times> pydict) list \<Rightarrow> error + pydict list" where
  "update_local_loop env mac net_status acc [] = Inr acc"
| "update_local_loop env mac net_status acc ((interface_name, io_counters) # rest) =
     (if \<not> is_display env interface_name \<or> net_status interface_name = None then
        update_local_loop env mac net_status acc rest
      else
        (case interface_stat env mac interface_name io_counters
                (the (net_status interface_name)) of
           Inl e \<Rightarrow> Inl e
         | Inr stat \<Rightarrow> update_local_loop env mac net_status (acc @ [stat]) rest))"

text \<open>The function body under the decorator.  On \<open>OSError\<close> the previous \<open>stats\<close> are
  returned.\<close>

definition update_local_body ::
  "environment \<Rightarrow> network_plugin \<Rightarrow> (string \<Rightarrow> string option) \<Rightarrow> psutil_read \<Rightarrow>
     error + pydict list" where
  "update_local_body env self get_mac_address psutil =
     (case psutil of
        RaisesOSError \<Rightarrow> Inr (stats self)
      | Snapshot net_io_counters net_status \<Rightarrow>
          update_local_loop env get_mac_address net_status [] net_io_counters)"

text \<open>\<open>update_local\<close> as the class has it, \<open>@GlancesPluginModel._manage_rate\<close> applied:
  what the decorator makes of the outcome of the body.\<close>

definition update_local ::
  "environment \<Rightarrow> network_plugin \<Rightarrow> (string \<Rightarrow> string option) \<Rightarrow> psutil_read \<Rightarrow>
     error + pydict list" where
  "update_local env self get_mac_address psutil =
     manage_rate env (update_local_body env self get_mac_address psutil)"

subsection \<open>\<open>update_views\<close>\<close>

text \<open>\<open>int(i[field] * k)\<close>.\<close>

definition scaled_int :: "pydict \<Rightarrow> string \<Rightarrow> int \<Rightarrow> error + int" where
  "scaled_int i field k =
     (case item i field of
        Inl e \<Rightarrow> Inl e
      | Inr v \<Rightarrow> (case py_mul_int v k of Inl e \<Rightarrow> Inl e | Inr p \<Rightarrow> py_int p))"

text \<open>\<open>i['interface_name'].split(':')[0]\<close>; only a string has \<open>split\<close>.\<close>

definition if_real_name :: "pydict \<Rightarrow> error + string" where
  "if_real_name i =
     (case item i ''interface_name'' of
        Inl e \<Rightarrow> Inl e
      | Inr (VStr n) \<Rightarrow> Inr (before_colon n)
      | Inr _ \<Rightarrow> Inl AttributeError)"

text \<open>
  The decoration of one direction: the thresholds of the configuration file first, under
  the header of the interface; when that gives \<open>DEFAULT\<close> and the stat has a \<open>speed\<close>
  different from \<open>0\<close>, the alert against the interface speed as maximum.
\<close>

definition bitrate_alert :: "environment \<Rightarrow> pydict \<Rightarrow> int \<Rightarrow> string \<Rightarrow> string \<Rightarrow> string" where
  "bitrate_alert env i bps name direction =
     (let alert = get_alert env bps None (name @ ''_'' @ direction)
      in if alert = ''DEFAULT'' \<and> i ''speed'' \<noteq> None \<and> py_ne_zero (the (i ''speed''))
         then get_alert env bps (i ''speed'') direction
         else alert)"

text \<open>\<open>self.views[key][field]['decoration'] = alert\<close>.\<close>

definition set_decoration :: "views \<Rightarrow> string \<Rightarrow> string \<Rightarrow> string \<Rightarrow> error + views" where
  "set_decoration vs k field alert =
     (case vs k of
        None \<Rightarrow> Inl KeyError
      | Some per_field \<Rightarrow>
          (case per_field field of
             None \<Rightarrow> Inl KeyError
           | Some opts \<Rightarrow>
               Inr (vs(k \<mapsto> per_field(field \<mapsto> opts(''decoration'' \<mapsto> VStr alert))))))"

text \<open>One iteration of the loop of \<open>update_views\<close>.\<close>

definition update_view :: "environment \<Rightarrow> views \<Rightarrow> pydict \<Rightarrow> error + views" where
  "update_view env vs i =
     (if i ''bytes_recv_rate_per_sec'' = None \<or> i ''bytes_sent_rate_per_sec'' = None then Inr vs
      else
        (case scaled_int i ''bytes_recv_rate_per_sec'' 8 of
           Inl e \<Rightarrow> Inl e
         | Inr bps_rx \<Rightarrow>
        (case scaled_int i ''bytes_sent_rate_per_sec'' 8 of
           Inl e \<Rightarrow> Inl e
         | Inr bps_tx \<Rightarrow>
        (case if_real_name i of
           Inl e \<Rightarrow> Inl e
         | Inr name \<Rightarrow>
            (let alert_rx = bitrate_alert env i bps_rx name ''rx'';
                 alert_tx = bitrate_alert env i bps_tx name ''tx''
             in case item i get_key of
                  Inl e \<Rightarrow> Inl e
                | Inr (VStr k) \<Rightarrow>
                    (case set_decoration vs k ''bytes_recv'' alert_rx of
                       Inl e \<Rightarrow> Inl e
                     | Inr vs' \<Rightarrow> set_decoration vs' k ''bytes_sent'' alert_tx)
                | Inr _ \<Rightarrow> Inl KeyError)))))"

text \<open>\<open>update_views\<close>, after the call of the base class has rebuilt \<open>self.views\<close>
  (\<open>vs\<close>): the loop over \<open>self.get_raw()\<close>, the plugin's \<open>stats\<close>.\<close>

fun update_views_loop :: "environment \<Rightarrow> views \<Rightarrow> pydict list \<Rightarrow> error + views" where
  "update_views_loop env vs [] = Inr vs"
| "update_views_loop env vs (i # rest) =
     (case update_view env vs i of
        Inl e \<Rightarrow> Inl e
      | Inr vs' \<Rightarrow> update_views_loop env vs' rest)"

definition update_views :: "environment \<Rightarrow> network_plugin \<Rightarrow> views \<Rightarrow> error + network_plugin" where
  "update_views env self vs =
     (case update_views_loop env vs (stats self) of
        Inl e \<Rightarrow> Inl e
      | Inr vs' \<Rightarrow> Inr (self\<lparr>views_of := vs'\<rparr>))"

subsection \<open>\<open>msg_curse\<close>\<close>

text \<open>The header cells; \<open>args\<close> is \<open>None\<close> unless the caller gives it, and reading a
  switch of \<open>None\<close> is an \<open>AttributeError\<close>.\<close>

definition header_cells :: "args option \<Rightarrow> int \<Rightarrow> error + cell list" where
  "header_cells args name_max_width =
     (case format_width ''NETWORK'' name_max_width of
        Inl e \<Rightarrow> Inl e
      | Inr msg \<Rightarrow>
          (case args of
             None \<Rightarrow> Inl AttributeError
           | Some a \<Rightarrow>
               Inr (curse_add_line msg (Some (VStr ''TITLE'')) None None #
                 (if network_cumul a then
                    (if network_sum a then
                       [curse_add_line (format_right ''Rx+Tx'' 14) None None None]
                     else
                       [curse_add_line (format_right ''Rx'' 7) None None None,
                        curse_add_line (format_right ''Tx'' 7) None None None])
                  else
                    (if network_sum a then
                       [curse_add_line (format_right ''Rx+Tx/s'' 14) None None None]
                     else
                       [curse_add_line (format_right ''Rx/s'' 7) None None None,
                        curse_add_line (format_right ''Tx/s'' 7) None None None])))))"

text \<open>\<open>'is_up' in i and not i['is_up']\<close>.\<close>

definition not_up :: "pydict \<Rightarrow> bool" where
  "not_up i = (case i ''is_up'' of None \<Rightarrow> False | Some v \<Rightarrow> \<not> py_truthy v)"

text \<open>\<open>all(self.get_views(item=i[key], key=f, option='hidden') for f in fields)\<close>:
  stops at the first field that is not hidden.\<close>

fun all_hidden :: "environment \<Rightarrow> pydict \<Rightarrow> string list \<Rightarrow> error + bool" where
  "all_hidden env i [] = Inr True"
| "all_hidden env i (f # fs) =
     (case item i get_key of
        Inl e \<Rightarrow> Inl e
      | Inr k \<Rightarrow>
          (case get_views env k f ''hidden'' of
             Inl e \<Rightarrow> Inl e
           | Inr v \<Rightarrow> if py_truthy v then all_hidden env i fs else Inr False))"

text \<open>The name to show: the alias unless it is \<open>None\<close>.  \<open>len\<close> of a value that is not a
  string is a \<open>TypeError\<close>.\<close>

definition shown_name :: "pydict \<Rightarrow> error + string" where
  "shown_name i =
     (case item i ''alias'' of
        Inl e \<Rightarrow> Inl e
      | Inr VNone \<Rightarrow> if_real_name i
      | Inr (VStr a) \<Rightarrow> Inr a
      | Inr _ \<Rightarrow> Inl TypeError)"

text \<open>\<open>if len(if_name) > name_max_width: if_name = '_' + if_name[-name_max_width + 1:]\<close>.\<close>

definition cut_name :: "string \<Rightarrow> int \<Rightarrow> string" where
  "cut_name if_name name_max_width =
     (if int (length if_name) > name_max_width
      then ''_'' @ slice_from if_name (- name_max_width + 1)
      else if_name)"

text \<open>The three values of a row, already with their unit: \<open>None\<close> when the stat has
  neither the counters asked for nor the rates (the \<open>continue\<close> of the last branch).\<close>

definition row_values ::
  "environment \<Rightarrow> args \<Rightarrow> pydict \<Rightarrow> error + (string \<times> string \<times> string) option" where
  "row_values env a i =
     (let to_bit = (if byte a then 1 else 8);
          unit_suffix = (if byte a then '''' else ''b'');
          three = (\<lambda>f_rx f_tx f_ax.
            (case scaled_int i f_rx to_bit of
               Inl e \<Rightarrow> Inl e
             | Inr rx \<Rightarrow>
            (case scaled_int i f_tx to_bit of
               Inl e \<Rightarrow> Inl e
             | Inr tx \<Rightarrow>
            (case scaled_int i f_ax to_bit of
               Inl e \<Rightarrow> Inl e
             | Inr ax \<Rightarrow>
                 Inr (Some (auto_unit env rx @ unit_suffix,
                            auto_unit env tx @ unit_suffix,
                            auto_unit env ax @ unit_suffix))))))
      in if network_cumul a \<and> i ''bytes_recv'' \<noteq> None then
           three ''bytes_recv'' ''bytes_sent'' ''bytes_all''
         else if i ''bytes_recv_rate_per_sec'' \<noteq> None then
           three ''bytes_recv_rate_per_sec'' ''bytes_sent_rate_per_sec''
             ''bytes_all_rate_per_sec''
         else Inr None)"

text \<open>The value cells of a row.\<close>

definition value_cells ::
  "environment \<Rightarrow> args \<Rightarrow> pydict \<Rightarrow> string \<times> string \<times> string \<Rightarrow> error + cell list" where
  "value_cells env a i vals =
     (case vals of (rx, tx, ax) \<Rightarrow>
        if network_sum a then Inr [curse_add_line (format_right ax 14) None None None]
        else
          (case item i get_key of
             Inl e \<Rightarrow> Inl e
           | Inr k \<Rightarrow>
          (case get_views env k ''bytes_recv'' ''decoration'' of
             Inl e \<Rightarrow> Inl e
           | Inr deco_rx \<Rightarrow>
          (case get_views env k ''bytes_sent'' ''decoration'' of
             Inl e \<Rightarrow> Inl e
           | Inr deco_tx \<Rightarrow>
               Inr [curse_add_line (format_right rx 7) (Some deco_rx) None None,
                    curse_add_line (format_right tx 7) (Some deco_tx) None None]))))"

text \<open>One iteration of the loop over the interfaces: the cells it appends to \<open>ret\<close>.\<close>

definition network_row ::
  "environment \<Rightarrow> network_plugin \<Rightarrow> args \<Rightarrow> int \<Rightarrow> pydict \<Rightarrow> error + cell list" where
  "network_row env self a name_max_width i =
     (if not_up i then Inr []
      else
        (case all_hidden env i (hide_zero_fields self) of
           Inl e \<Rightarrow> Inl e
         | Inr True \<Rightarrow> Inr []
         | Inr False \<Rightarrow>
        (case shown_name i of
           Inl e \<Rightarrow> Inl e
         | Inr if_name \<Rightarrow>
        (case format_width (cut_name if_name name_max_width) name_max_width of
           Inl e \<Rightarrow> Inl e
         | Inr msg \<Rightarrow>
            (let mac_address = (case i ''mac_address'' of None \<Rightarrow> VStr ''Unknown'' | Some m \<Rightarrow> m);
                 name_cells =
                   [curse_new_line,
                    curse_add_line msg None None None,
                    curse_add_line ('' MAC: '' @ py_str env mac_address) None None None]
             in case row_values env a i of
                  Inl e \<Rightarrow> Inl e
                | Inr None \<Rightarrow> Inr name_cells
                | Inr (Some vals) \<Rightarrow>
                    (case value_cells env a i vals of
                       Inl e \<Rightarrow> Inl e
                     | Inr cells \<Rightarrow> Inr (name_cells @ cells)))))))"

fun network_rows ::
  "environment \<Rightarrow> network_plugin \<Rightarrow> args \<Rightarrow> int \<Rightarrow> cell list \<Rightarrow> pydict list \<Rightarrow>
     error + cell list" where
  "network_rows env self a w ret [] = Inr ret"
| "network_rows env self a w ret (i # rest) =
     (case network_row env self a w i of
        Inl e \<Rightarrow> Inl e
      | Inr cells \<Rightarrow> network_rows env self a w (ret @ cells) rest)"

text \<open>\<open>PluginModel.msg_curse\<close> of the network plugin.  Without a truthy \<open>max_width\<close> the
  message is empty.\<close>

definition msg_curse ::
  "environment \<Rightarrow> network_plugin \<Rightarrow> args option \<Rightarrow> int option \<Rightarrow> error + cell list" where
  "msg_curse env self args max_width =
     (if stats self = [] \<or> is_disabled self then Inr []
      else
        (case max_width of
           None \<Rightarrow> Inr []
         | Some mw \<Rightarrow>
             if mw = 0 then Inr []
             else
               (let name_max_width = mw - 12
                in case header_cells args name_max_width of
                     Inl e \<Rightarrow> Inl e
                   | Inr ret \<Rightarrow>
                       network_rows env self (the args) name_max_width ret
                         (sorted_stats env (stats self)))))"

subsection \<open>An environment for the examples\<close>

text \<open>
  A concrete environment to run the plugin on: every interface is displayed and has no
  alias, \<open>filter_stats\<close> keeps the fields that \<open>fields_description\<close> names, no threshold
  is configured (\<open>get_alert\<close> answers \<open>DEFAULT\<close> without a maximum, and against a maximum
  \<open>CRITICAL\<close> from 90 percent of it on), no view is hidden, the stats are shown in
  the order they have, and the rate decorator hands the outcome of the body on as it is.
\<close>

definition example_get_alert :: "int \<Rightarrow> pyval option \<Rightarrow> string \<Rightarrow> string" where
  "example_get_alert current maximum header =
     (case maximum of
        Some (VInt m) \<Rightarrow> if current * 100 \<ge> 90 * m then ''CRITICAL'' else ''OK''
      | _ \<Rightarrow> ''DEFAULT'')"

definition example_get_views :: "pyval \<Rightarrow> string \<Rightarrow> string \<Rightarrow> error + pyval" where
  "example_get_views k field opt =
     (if opt = ''hidden'' then Inr (VBool False) else Inr (VStr ''DEFAULT''))"

definition example_env :: environment where
  "example_env =
     \<lparr>is_display = (\<lambda>name. True),
      has_alias = (\<lambda>name. None),
      filter_stats = (\<lambda>d. d |` set (map fst fields_description)),
      get_alert = example_get_alert,
      get_views = example_get_views,
      auto_unit = str_int,
      sorted_stats = (\<lambda>xs. xs),
      manage_rate = (\<lambda>outcome. outcome),
      float_str = (\<lambda>r. ''0.0'')\<rparr>"

definition example_plugin :: "pydict list \<Rightarrow> network_plugin" where
  "example_plugin xs =
     \<lparr>stats = xs, views_of = Map.empty, is_disabled = False, hide_zero = False,
      hide_zero_fields = [''bytes_recv_rate_per_sec'', ''bytes_sent_rate_per_sec''],
      hide_no_up = False, hide_no_ip = False\<rparr>"

text \<open>One interface as \<open>psutil\<close> reports it: the counters, and a link of 1000 Mbps.\<close>

definition example_psutil :: psutil_read where
  "example_psutil =
     Snapshot
       [(''eth0'', [''bytes_sent'' \<mapsto> VInt 1000, ''bytes_recv'' \<mapsto> VInt 1500,
                    ''packets_sent'' \<mapsto> VInt 7, ''packets_recv'' \<mapsto> VInt 9])]
       [''eth0'' \<mapsto> [''isup'' \<mapsto> VBool True, ''duplex'' \<mapsto> VInt 2,
                       ''speed'' \<mapsto> VInt 1000, ''mtu'' \<mapsto> VInt 1500]]"






definition example_args :: args where
  "example_args = \<lparr>network_cumul = False, network_sum = False, byte = False\<rparr>"

text \<open>Stats as the plugin holds them after the rates are known: a wireless interface
  that is up, a wired one near the speed of its link, a loopback without \<open>speed\<close>, and an
  interface that is down.\<close>

definition example_wlan0 :: pydict where
  "example_wlan0 =
     [''interface_name'' \<mapsto> VStr ''wlan0'', ''alias'' \<mapsto> VNone,
      ''mac_address'' \<mapsto> VStr ''aa:bb'', ''is_up'' \<mapsto> VBool True,
      ''bytes_recv_rate_per_sec'' \<mapsto> VFloat 500, ''bytes_sent_rate_per_sec'' \<mapsto> VFloat 250,
      ''bytes_all_rate_per_sec'' \<mapsto> VFloat 750, ''speed'' \<mapsto> VInt 1048576000]"

definition example_eth0 :: pydict where
  "example_eth0 =
     [''interface_name'' \<mapsto> VStr ''eth0'', ''alias'' \<mapsto> VNone,
      ''bytes_recv_rate_per_sec'' \<mapsto> VFloat 125000000,
      ''bytes_sent_rate_per_sec'' \<mapsto> VFloat 250,
      ''speed'' \<mapsto> VInt 1048576000]"

definition example_lo :: pydict where
  "example_lo =
     [''interface_name'' \<mapsto> VStr ''lo'', ''alias'' \<mapsto> VNone,
      ''bytes_recv_rate_per_sec'' \<mapsto> VFloat 125000000,
      ''bytes_sent_rate_per_sec'' \<mapsto> VFloat 250]"

definition example_down :: pydict where
  "example_down =
     [''interface_name'' \<mapsto> VStr ''eth1'', ''alias'' \<mapsto> VNone, ''is_up'' \<mapsto> VBool False]"

definition example_views :: views where
  "example_views =
     [''eth0'' \<mapsto> [''bytes_recv'' \<mapsto> Map.empty, ''bytes_sent'' \<mapsto> Map.empty],
      ''lo'' \<mapsto> [''bytes_recv'' \<mapsto> Map.empty, ''bytes_sent'' \<mapsto> Map.empty]]"

text \<open>\<open>views[k][field]['decoration']\<close>, when all three keys are there.\<close>

definition decoration_of :: "views \<Rightarrow> string \<Rightarrow> string \<Rightarrow> pyval option" where
  "decoration_of vs k field =
     (case vs k of
        None \<Rightarrow> None
      | Some per_field \<Rightarrow>
          (case per_field field of None \<Rightarrow> None | Some opts \<Rightarrow> opts ''decoration''))"




section \<open>Properties of the rate engine\<close>

lemma rate_fields_eq: "rate_fields = [''bytes_recv'', ''bytes_sent'', ''bytes_all'']"
  by (simp add: rate_fields_def fields_description_def)

lemma add_rate_field_other:
  "k \<noteq> f @ ''_rate_per_sec'' \<Longrightarrow> add_rate_field p c f stat k = stat k"
  by (simp add: add_rate_field_def split: option.splits)

lemma add_rate_field_same:
  "add_rate_field p c f stat (f @ ''_rate_per_sec'') =
     (case compute_rate p c f of None \<Rightarrow> stat (f @ ''_rate_per_sec'') | Some r \<Rightarrow> Some r)"
  by (simp add: add_rate_field_def split: option.splits)

lemma derive_rate_fields_lookup:
  assumes "f \<in> set rate_fields"
  shows "derive_rate_fields p c (f @ ''_rate_per_sec'') = compute_rate p c f"
proof -
  from assms consider "f = ''bytes_recv''" | "f = ''bytes_sent''" | "f = ''bytes_all''"
    by (auto simp: rate_fields_eq)
  then show ?thesis
  proof cases
    case 1
    then show ?thesis
      by (simp add: derive_rate_fields_def rate_fields_eq add_rate_field_def
          split: option.splits)
  next
    case 2
    then show ?thesis
      by (simp add: derive_rate_fields_def rate_fields_eq add_rate_field_def
          split: option.splits)
  next
    case 3
    then show ?thesis
      by (simp add: derive_rate_fields_def rate_fields_eq add_rate_field_def
          split: option.splits)
  qed
qed

text \<open>
  C2.  For non-negative counters with previous \<open>\<le>\<close> current and a positive elapsed time,
  \<open>compute_rate\<close> is exactly the counter delta divided by the elapsed seconds, and every
  field marked \<open>rate = True\<close> gets its \<open>_rate_per_sec\<close> sibling by this formula.
\<close>

theorem compute_rate_exact:
  assumes "counters previous counter = Some a"
    and "counters current counter = Some b"
    and "0 \<le> a" and "a \<le> b"
    and "timestamp previous < timestamp current"
  shows "compute_rate (Some previous) current counter =
           Some ((of_int b - of_int a) / (timestamp current - timestamp previous))
         \<and> (counter \<in> set rate_fields \<longrightarrow>
              derive_rate_fields (Some previous) current (counter @ ''_rate_per_sec'') =
                Some ((of_int b - of_int a) / (timestamp current - timestamp previous)))"
proof -
  have r: "compute_rate (Some previous) current counter =
           Some ((of_int b - of_int a) / (timestamp current - timestamp previous))"
    using assms by (simp add: compute_rate_def Let_def)
  show ?thesis
    using r derive_rate_fields_lookup [of counter "Some previous" current] by simp
qed

theorem compute_rate_exact_witness:
  "compute_rate
     (Some \<lparr>source_id = ''eth0'', counters = [''bytes_recv'' \<mapsto> 1000], timestamp = 0\<rparr>)
     \<lparr>source_id = ''eth0'', counters = [''bytes_recv'' \<mapsto> 1500], timestamp = 1\<rparr>
     ''bytes_recv'' = Some 500
   \<and> derive_rate_fields
     (Some \<lparr>source_id = ''eth0'', counters = [''bytes_recv'' \<mapsto> 1000], timestamp = 0\<rparr>)
     \<lparr>source_id = ''eth0'', counters = [''bytes_recv'' \<mapsto> 1500], timestamp = 1\<rparr>
     ''bytes_recv_rate_per_sec'' = Some 500"
  using compute_rate_exact
    [of "\<lparr>source_id = ''eth0'', counters = [''bytes_recv'' \<mapsto> 1000], timestamp = 0\<rparr>"
      "''bytes_recv''" 1000
      "\<lparr>source_id = ''eth0'', counters = [''bytes_recv'' \<mapsto> 1500], timestamp = 1\<rparr>" 1500]
  by (simp add: rate_fields_eq)

section \<open>Properties of the classifier\<close>

text \<open>
  C3.  With an explicitly configured threshold set whose bounds increase strictly,
  \<open>classify\<close> returns the severity of the highest bound the value reaches, bounds
  inclusive: the critical bound itself is critical, and a value strictly between the
  warning and the critical bound is warning.
\<close>

theorem classify_explicit_inclusive:
  assumes "explicit th = Some ts"
    and "careful_bound ts < warning_bound ts"
    and "warning_bound ts < critical_bound ts"
  shows "(classify v th maximum = CRITICAL \<longleftrightarrow> critical_bound ts \<le> v)
       \<and> (classify v th maximum = WARNING \<longleftrightarrow> warning_bound ts \<le> v \<and> v < critical_bound ts)
       \<and> (classify v th maximum = CAREFUL \<longleftrightarrow> careful_bound ts \<le> v \<and> v < warning_bound ts)
       \<and> (classify v th maximum = DEFAULT \<longleftrightarrow> v < careful_bound ts)
       \<and> classify (critical_bound ts) th maximum = CRITICAL
       \<and> (warning_bound ts < v \<and> v < critical_bound ts \<longrightarrow> classify v th maximum = WARNING)"
  using assms by (auto simp: classify_def compare_bounds_def)

theorem classify_explicit_inclusive_witness:
  "classify 50 \<lparr>explicit = Some \<lparr>careful_bound = 10, warning_bound = 20, critical_bound = 50\<rparr>,
                percent_of_maximum = \<lparr>careful_bound = 50, warning_bound = 70, critical_bound = 90\<rparr>\<rparr>
     None = CRITICAL
   \<and> classify 49 \<lparr>explicit = Some \<lparr>careful_bound = 10, warning_bound = 20, critical_bound = 50\<rparr>,
                percent_of_maximum = \<lparr>careful_bound = 50, warning_bound = 70, critical_bound = 90\<rparr>\<rparr>
     None = WARNING"
  using classify_explicit_inclusive
    [of "\<lparr>explicit = Some \<lparr>careful_bound = 10, warning_bound = 20, critical_bound = 50\<rparr>,
          percent_of_maximum = \<lparr>careful_bound = 50, warning_bound = 70, critical_bound = 90\<rparr>\<rparr>"
      "\<lparr>careful_bound = 10, warning_bound = 20, critical_bound = 50\<rparr>" 49 None]
  by simp

section \<open>Properties of the NVMe plugin\<close>

text \<open>
  C1.  The sampler is to answer "no data" on every failure of the tool.  It does not:
  a missing binary leaves \<open>get\<close> as \<open>FileNotFoundError\<close>, and a labelled line without a
  number in the expected place leaves it as \<open>ValueError\<close> (a counter printed with a
  thousands separator, or a word in place of the temperature) or as \<open>IndexError\<close> (the
  label alone on its line).
\<close>

theorem get_lets_failures_escape:
  "get NotInstalled = Inl FileNotFoundError
   \<and> get (Exited 0 (Text ''Power Cycles:                       1,557'')) = Inl ValueError
   \<and> parse_nvme_output ''Temperature: hot'' = Inl ValueError
   \<and> parse_nvme_output ''Temperature:'' = Inl IndexError"
  by code_simp

lemma get_nonzero_exit: "rc \<noteq> 0 \<Longrightarrow> get (Exited rc (Text out)) = Inr []"
  by (simp add: get_def check_output_def)

text \<open>A non-zero exit code with output that decodes: \<open>get\<close> returns the empty mapping,
  \<open>update\<close> leaves the plugin with an empty \<open>stats\<close> list, and \<open>msg_curse\<close> then returns
  no cell, whatever the width.\<close>

lemma nvme_nonzero_exit_decodable:
  assumes "rc \<noteq> 0"
  shows "get (Exited rc (Text out)) = Inr []
       \<and> nvme_update self (Exited rc (Text out)) = Inr (self\<lparr>nvme_stats := []\<rparr>)
       \<and> nvme_msg_curse (self\<lparr>nvme_stats := []\<rparr>) max_width = Inr []"
  using assms
  by (simp add: get_nonzero_exit nvme_update_def nvme_get_init_value_def nvme_msg_curse_def)

text \<open>
  C6.  A non-zero exit code is to give the empty mapping, an empty \<open>stats\<close> list and no
  cell, with no exception.  It does not when the output of the tool does not decode:
  the output is decoded before the exit code is looked at, \<open>get\<close> catches
  \<open>CalledProcessError\<close> only, and the \<open>UnicodeDecodeError\<close> leaves \<open>get\<close> and \<open>update\<close>.
\<close>

theorem nvme_nonzero_exit_undecodable:
  "check_output (Exited 2 Undecodable) = Inl UnicodeDecodeError
   \<and> get (Exited 2 Undecodable) = Inl UnicodeDecodeError
   \<and> nvme_update \<lparr>nvme_stats = [], nvme_is_disabled = False\<rparr> (Exited 2 Undecodable)
       = Inl UnicodeDecodeError"
  by (simp add: check_output_def get_def nvme_update_def)

text \<open>
  C8.  With a non-empty \<open>stats\<close> list and the plugin enabled, \<open>msg_curse\<close> of the NVMe
  plugin called with a falsy \<open>max_width\<close> (\<open>None\<close> or \<open>0\<close>) raises \<open>UnboundLocalError\<close>,
  where the network plugin returns the empty list.
\<close>

theorem nvme_msg_curse_unbound_width:
  assumes "nvme_stats self \<noteq> []"
    and "\<not> nvme_is_disabled self"
    and "max_width = None \<or> max_width = Some 0"
  shows "nvme_msg_curse self max_width = Inl UnboundLocalError
       \<and> msg_curse env net args max_width = Inr []"
proof -
  from assms(1) obtain stat rest where st: "nvme_stats self = stat # rest"
    by (cases "nvme_stats self") auto
  have "nvme_msg_curse self max_width = Inl UnboundLocalError"
    using assms(2,3) st by (auto simp: nvme_msg_curse_def)
  moreover have "msg_curse env net args max_width = Inr []"
    using assms(3) by (auto simp: msg_curse_def)
  ultimately show ?thesis by simp
qed

theorem nvme_msg_curse_unbound_width_witness:
  "nvme_msg_curse \<lparr>nvme_stats = [\<lparr>label = ''NVMe Temp'', val = 35, unit_of = ''C''\<rparr>],
                    nvme_is_disabled = False\<rparr> None = Inl UnboundLocalError
   \<and> msg_curse example_env (example_plugin [[''interface_name'' \<mapsto> VStr ''eth0'']])
        None None = Inr []"
  using nvme_msg_curse_unbound_width
    [of "\<lparr>nvme_stats = [\<lparr>label = ''NVMe Temp'', val = 35, unit_of = ''C''\<rparr>],
          nvme_is_disabled = False\<rparr>" None example_env
      "example_plugin [[''interface_name'' \<mapsto> VStr ''eth0'']]" None]
  by simp

section \<open>Properties of \<open>update_local\<close>\<close>













text \<open>
  C5.  The link speed is to be converted from megabits per second to bits per second
  with the factor 1,000,000 of the bit-per-second family.  \<open>update_local\<close> multiplies by
  1048576 instead: a link of 1000 Mbps is stored as 1048576000 and not as 1000000000.
\<close>

theorem speed_scaled_by_1048576:
  "map_sum id (map (\<lambda>s. s ''speed''))
     (update_local example_env (example_plugin []) (\<lambda>name. None) example_psutil)
   = Inr [Some (VInt 1048576000)]
   \<and> map_sum id (map (\<lambda>s. s ''speed''))
     (update_local_body example_env (example_plugin []) (\<lambda>name. None) example_psutil)
   = Inr [Some (VInt 1048576000)]
   \<and> (1048576000 :: int) \<noteq> 1000 * 1000000"
  by (simp add: update_local_def update_local_body_def example_psutil_def example_env_def
      interface_stat_def add_bytes_all_def convert_speed_def item_def get_key_def
      fields_description_def restrict_map_def map_add_def)

section \<open>Properties of \<open>update_views\<close>\<close>

lemma set_decoration_other_key:
  assumes "set_decoration vs k f a = Inr vs'" and "k' \<noteq> k"
  shows "vs' k' = vs k'"
  using assms by (auto simp: set_decoration_def split: option.splits)

lemma set_decoration_lookup:
  assumes "set_decoration vs k f a = Inr vs'"
  shows "decoration_of vs' k f = Some (VStr a)"
  using assms by (auto simp: set_decoration_def decoration_of_def split: option.splits)

lemma set_decoration_other_field:
  assumes "set_decoration vs k f a = Inr vs'" and "f' \<noteq> f"
  shows "decoration_of vs' k f' = decoration_of vs k f'"
  using assms by (auto simp: set_decoration_def decoration_of_def split: option.splits)

lemma update_view_other:
  assumes "update_view env vs x = Inr vs'" and "x ''interface_name'' \<noteq> Some (VStr k)"
  shows "vs' k = vs k"
proof (cases "x ''bytes_recv_rate_per_sec'' = None \<or> x ''bytes_sent_rate_per_sec'' = None")
  case True
  with assms(1) show ?thesis by (simp add: update_view_def)
next
  case False
  with assms(1) obtain k' a b mid where
    n: "x ''interface_name'' = Some (VStr k')"
    and s1: "set_decoration vs k' ''bytes_recv'' a = Inr mid"
    and s2: "set_decoration mid k' ''bytes_sent'' b = Inr vs'"
    by (auto simp: update_view_def item_def get_key_def Let_def
        split: sum.splits option.splits pyval.splits)
  from n assms(2) have "k \<noteq> k'" by auto
  then show ?thesis
    using set_decoration_other_key [OF s1] set_decoration_other_key [OF s2] by simp
qed

lemma update_views_loop_other:
  assumes "update_views_loop env vs xs = Inr vs'"
    and "\<forall>x \<in> set xs. x ''interface_name'' \<noteq> Some (VStr k)"
  shows "vs' k = vs k"
  using assms
proof (induction xs arbitrary: vs)
  case Nil
  then show ?case by simp
next
  case (Cons x xs)
  from Cons.prems(1) obtain mid where
    u: "update_view env vs x = Inr mid" and r: "update_views_loop env mid xs = Inr vs'"
    by (auto split: sum.splits)
  have "mid k = vs k" using update_view_other [OF u] Cons.prems(2) by simp
  moreover have "vs' k = mid k" using Cons.IH [OF r] Cons.prems(2) by simp
  ultimately show ?case by simp
qed

lemma update_view_decorations:
  assumes "i ''interface_name'' = Some (VStr k)"
    and "scaled_int i ''bytes_recv_rate_per_sec'' 8 = Inr bps_rx"
    and "scaled_int i ''bytes_sent_rate_per_sec'' 8 = Inr bps_tx"
    and "update_view env vs i = Inr vs'"
  shows "decoration_of vs' k ''bytes_recv''
           = Some (VStr (bitrate_alert env i bps_rx (before_colon k) ''rx''))
       \<and> decoration_of vs' k ''bytes_sent''
           = Some (VStr (bitrate_alert env i bps_tx (before_colon k) ''tx''))"
proof -
  have p: "i ''bytes_recv_rate_per_sec'' \<noteq> None" "i ''bytes_sent_rate_per_sec'' \<noteq> None"
    using assms(2,3) by (auto simp: scaled_int_def item_def split: option.splits)
  have n: "if_real_name i = Inr (before_colon k)" "item i get_key = Inr (VStr k)"
    using assms(1) by (simp_all add: if_real_name_def item_def get_key_def)
  from assms(4) p n assms(2,3) obtain mid where
    s1: "set_decoration vs k ''bytes_recv''
           (bitrate_alert env i bps_rx (before_colon k) ''rx'') = Inr mid"
    and s2: "set_decoration mid k ''bytes_sent''
           (bitrate_alert env i bps_tx (before_colon k) ''tx'') = Inr vs'"
    by (auto simp: update_view_def Let_def split: sum.splits)
  have "decoration_of vs' k ''bytes_recv'' = decoration_of mid k ''bytes_recv''"
    using set_decoration_other_field [OF s2, of "''bytes_recv''"] by simp
  with set_decoration_lookup [OF s1] set_decoration_lookup [OF s2] show ?thesis by simp
qed

lemma update_views_loop_decorations:
  assumes "update_views_loop env vs xs = Inr vs'"
    and "i \<in> set xs"
    and "distinct (map (\<lambda>x. x ''interface_name'') xs)"
    and "i ''interface_name'' = Some (VStr k)"
    and "scaled_int i ''bytes_recv_rate_per_sec'' 8 = Inr bps_rx"
    and "scaled_int i ''bytes_sent_rate_per_sec'' 8 = Inr bps_tx"
  shows "decoration_of vs' k ''bytes_recv''
           = Some (VStr (bitrate_alert env i bps_rx (before_colon k) ''rx''))
       \<and> decoration_of vs' k ''bytes_sent''
           = Some (VStr (bitrate_alert env i bps_tx (before_colon k) ''tx''))"
  using assms(1,2,3)
proof (induction xs arbitrary: vs)
  case Nil
  then show ?case by simp
next
  case (Cons x xs)
  from Cons.prems(1) obtain mid where
    u: "update_view env vs x = Inr mid" and r: "update_views_loop env mid xs = Inr vs'"
    by (auto split: sum.splits)
  show ?case
  proof (cases "i = x")
    case True
    from Cons.prems(3) True assms(4)
    have "\<forall>y \<in> set xs. y ''interface_name'' \<noteq> Some (VStr k)" by (auto simp: image_iff)
    from update_views_loop_other [OF r this] have "vs' k = mid k" .
    then have "decoration_of vs' k f = decoration_of mid k f" for f
      by (simp add: decoration_of_def)
    moreover from u True have "update_view env vs i = Inr mid" by simp
    ultimately show ?thesis
      using update_view_decorations [OF assms(4,5,6)] by simp
  next
    case False
    with Cons.prems(2) have "i \<in> set xs" by simp
    moreover from Cons.prems(3) have "distinct (map (\<lambda>x. x ''interface_name'') xs)" by simp
    ultimately show ?thesis using Cons.IH [OF r] by blast
  qed
qed

text \<open>
  C4.  For an interface of the stats (the interface names distinct, both rates present
  and \<open>update_views\<close> returning), in each direction: when the lookup under the
  interface's own header yields \<open>DEFAULT\<close> and the stat has a \<open>speed\<close> different from
  \<open>0\<close>, the decoration stored in the views is the alert of the bit rate against
  \<open>maximum = speed\<close>; when \<open>speed\<close> is absent or \<open>0\<close>, the decoration stays \<open>DEFAULT\<close>.
\<close>

theorem update_views_speed_fallback:
  assumes "update_views env self vs = Inr self'"
    and "i \<in> set (stats self)"
    and "distinct (map (\<lambda>x. x ''interface_name'') (stats self))"
    and "i ''interface_name'' = Some (VStr k)"
    and "scaled_int i ''bytes_recv_rate_per_sec'' 8 = Inr bps_rx"
    and "scaled_int i ''bytes_sent_rate_per_sec'' 8 = Inr bps_tx"
  shows "(get_alert env bps_rx None (before_colon k @ ''_rx'') = ''DEFAULT'' \<longrightarrow>
            (\<forall>sp. i ''speed'' = Some sp \<and> py_ne_zero sp \<longrightarrow>
               decoration_of (views_of self') k ''bytes_recv''
                 = Some (VStr (get_alert env bps_rx (Some sp) ''rx'')))
          \<and> (i ''speed'' = None \<or> (\<exists>sp. i ''speed'' = Some sp \<and> \<not> py_ne_zero sp) \<longrightarrow>
               decoration_of (views_of self') k ''bytes_recv'' = Some (VStr ''DEFAULT'')))
       \<and> (get_alert env bps_tx None (before_colon k @ ''_tx'') = ''DEFAULT'' \<longrightarrow>
            (\<forall>sp. i ''speed'' = Some sp \<and> py_ne_zero sp \<longrightarrow>
               decoration_of (views_of self') k ''bytes_sent''
                 = Some (VStr (get_alert env bps_tx (Some sp) ''tx'')))
          \<and> (i ''speed'' = None \<or> (\<exists>sp. i ''speed'' = Some sp \<and> \<not> py_ne_zero sp) \<longrightarrow>
               decoration_of (views_of self') k ''bytes_sent'' = Some (VStr ''DEFAULT'')))"
proof -
  from assms(1) obtain vs' where
    l: "update_views_loop env vs (stats self) = Inr vs'" and v: "views_of self' = vs'"
    by (auto simp: update_views_def split: sum.splits)
  from update_views_loop_decorations [OF l assms(2,3,4,5,6)]
  have d: "decoration_of (views_of self') k ''bytes_recv''
           = Some (VStr (bitrate_alert env i bps_rx (before_colon k) ''rx''))"
    "decoration_of (views_of self') k ''bytes_sent''
           = Some (VStr (bitrate_alert env i bps_tx (before_colon k) ''tx''))"
    using v by simp_all
  show ?thesis
    unfolding d by (auto simp: bitrate_alert_def)
qed

lemma example_update_views_returns:
  "\<exists>s. update_views example_env (example_plugin [example_eth0, example_lo]) example_views = Inr s"
  by (simp add: update_views_def example_plugin_def update_view_def example_eth0_def
      example_lo_def example_views_def scaled_int_def item_def if_real_name_def get_key_def
      set_decoration_def Let_def)

theorem update_views_speed_fallback_witness:
  "\<exists>self'. update_views example_env (example_plugin [example_eth0, example_lo]) example_views
             = Inr self'
     \<and> decoration_of (views_of self') ''eth0'' ''bytes_recv'' = Some (VStr ''CRITICAL'')
     \<and> decoration_of (views_of self') ''eth0'' ''bytes_sent'' = Some (VStr ''OK'')
     \<and> decoration_of (views_of self') ''lo'' ''bytes_recv'' = Some (VStr ''DEFAULT'')
     \<and> decoration_of (views_of self') ''lo'' ''bytes_sent'' = Some (VStr ''DEFAULT'')"
proof -
  from example_update_views_returns obtain self' where
    u: "update_views example_env (example_plugin [example_eth0, example_lo]) example_views
          = Inr self'" ..
  have m: "example_eth0 \<in> set (stats (example_plugin [example_eth0, example_lo]))"
    "example_lo \<in> set (stats (example_plugin [example_eth0, example_lo]))"
    by (simp_all add: example_plugin_def)
  have d: "distinct (map (\<lambda>x. x ''interface_name'')
             (stats (example_plugin [example_eth0, example_lo])))"
    by (simp add: example_plugin_def example_eth0_def example_lo_def)
  have e: "example_eth0 ''interface_name'' = Some (VStr ''eth0'')"
    "scaled_int example_eth0 ''bytes_recv_rate_per_sec'' 8 = Inr 1000000000"
    "scaled_int example_eth0 ''bytes_sent_rate_per_sec'' 8 = Inr 2000"
    by (simp_all add: example_eth0_def scaled_int_def item_def)
  have l: "example_lo ''interface_name'' = Some (VStr ''lo'')"
    "scaled_int example_lo ''bytes_recv_rate_per_sec'' 8 = Inr 1000000000"
    "scaled_int example_lo ''bytes_sent_rate_per_sec'' 8 = Inr 2000"
    by (simp_all add: example_lo_def scaled_int_def item_def)
  have g: "get_alert example_env b None h = ''DEFAULT''"
    "get_alert example_env 1000000000 (Some (VInt 1048576000)) h = ''CRITICAL''"
    "get_alert example_env 2000 (Some (VInt 1048576000)) h = ''OK''" for b h
    by (simp_all add: example_env_def example_get_alert_def)
  have s: "example_eth0 ''speed'' = Some (VInt 1048576000)" "example_lo ''speed'' = None"
    by (simp_all add: example_eth0_def example_lo_def)
  from update_views_speed_fallback [OF u m(1) d e]
  have "decoration_of (views_of self') ''eth0'' ''bytes_recv'' = Some (VStr ''CRITICAL'')"
    "decoration_of (views_of self') ''eth0'' ''bytes_sent'' = Some (VStr ''OK'')"
    by (simp_all add: g s)
  moreover from update_views_speed_fallback [OF u m(2) d l]
  have "decoration_of (views_of self') ''lo'' ''bytes_recv'' = Some (VStr ''DEFAULT'')"
    "decoration_of (views_of self') ''lo'' ''bytes_sent'' = Some (VStr ''DEFAULT'')"
    by (simp_all add: g s)
  ultimately show ?thesis
    using u by (intro exI [where x = self']) simp
qed

section \<open>Properties of \<open>msg_curse\<close> of the network plugin\<close>

lemma network_row_not_up: "not_up i \<Longrightarrow> network_row env self a w i = Inr []"
  by (simp add: network_row_def)

lemma network_row_hide_no_up:
  "network_row env (self\<lparr>hide_no_up := b\<rparr>) a w i = network_row env self a w i"
  by (simp add: network_row_def)

lemma network_rows_hide_no_up:
  "network_rows env (self\<lparr>hide_no_up := b\<rparr>) a w ret xs = network_rows env self a w ret xs"
  by (induction xs arbitrary: ret) (simp_all add: network_row_hide_no_up split: sum.splits)

lemma network_rows_skip_not_up:
  "network_rows env self a w ret (filter (\<lambda>x. \<not> not_up x) xs) = network_rows env self a w ret xs"
proof (induction xs arbitrary: ret)
  case Nil
  show ?case by simp
next
  case (Cons x xs)
  show ?case
  proof (cases "not_up x")
    case True
    then show ?thesis using Cons.IH by (simp add: network_row_not_up)
  next
    case False
    then show ?thesis using Cons.IH by (simp split: sum.splits)
  qed
qed

lemma msg_curse_hide_no_up:
  "msg_curse env (self\<lparr>hide_no_up := b\<rparr>) args max_width = msg_curse env self args max_width"
  by (simp add: msg_curse_def network_rows_hide_no_up Let_def split: option.splits sum.splits)

text \<open>
  C10.  An interface whose stat has \<open>is_up\<close> equal to \<open>False\<close> is skipped by the loop of
  \<open>msg_curse\<close>: its iteration appends no cell, so the cells are those of the list without
  it, and neither the loop nor \<open>msg_curse\<close> depends on the \<open>hide_no_up\<close> flag.
\<close>

theorem msg_curse_skips_down_interfaces:
  assumes "i ''is_up'' = Some (VBool False)"
  shows "network_row env (self\<lparr>hide_no_up := b\<rparr>) a w i = Inr []
       \<and> network_rows env (self\<lparr>hide_no_up := b\<rparr>) a w ret (before @ i # rest)
           = network_rows env self a w ret (before @ rest)
       \<and> msg_curse env (self\<lparr>hide_no_up := b\<rparr>) args max_width
           = msg_curse env self args max_width"
proof -
  have n: "not_up i" using assms by (simp add: not_up_def)
  have "network_rows env self a w ret (before @ i # rest)
        = network_rows env self a w ret (filter (\<lambda>x. \<not> not_up x) (before @ i # rest))"
    by (simp only: network_rows_skip_not_up)
  also have "\<dots> = network_rows env self a w ret (filter (\<lambda>x. \<not> not_up x) (before @ rest))"
    using n by simp
  also have "\<dots> = network_rows env self a w ret (before @ rest)"
    by (simp only: network_rows_skip_not_up)
  finally have r: "network_rows env self a w ret (before @ i # rest)
        = network_rows env self a w ret (before @ rest)" .
  have 1: "network_row env (self\<lparr>hide_no_up := b\<rparr>) a w i = Inr []"
    using n by (simp only: network_row_hide_no_up network_row_not_up)
  have 2: "network_rows env (self\<lparr>hide_no_up := b\<rparr>) a w ret (before @ i # rest)
           = network_rows env self a w ret (before @ rest)"
    using r by (simp only: network_rows_hide_no_up)
  from 1 2 msg_curse_hide_no_up show ?thesis by blast
qed

theorem msg_curse_skips_down_interfaces_witness:
  "network_row example_env ((example_plugin [example_down])\<lparr>hide_no_up := True\<rparr>)
      example_args 22 example_down = Inr []
   \<and> network_rows example_env ((example_plugin [example_down])\<lparr>hide_no_up := True\<rparr>)
        example_args 22 [] ([] @ example_down # [])
       = network_rows example_env (example_plugin [example_down]) example_args 22 [] ([] @ [])
   \<and> msg_curse example_env ((example_plugin [example_down])\<lparr>hide_no_up := True\<rparr>)
        (Some example_args) (Some 34)
       = msg_curse example_env (example_plugin [example_down]) (Some example_args) (Some 34)"
  by (rule msg_curse_skips_down_interfaces) (simp add: example_down_def)

section \<open>Properties of the interface label\<close>

text \<open>From a width of two on, a name longer than the width is cut to an underscore and
  its last characters, the width in all.\<close>

lemma cut_name_keeps_suffix:
  assumes "2 \<le> w" and "w < int (length if_name)"
  shows "cut_name if_name w = CHR ''_'' # drop (length if_name - (nat w - 1)) if_name
       \<and> int (length (cut_name if_name w)) = w"
proof -
  have "nat (int (length if_name) + (1 - w)) = length if_name - (nat w - 1)"
    using assms by linarith
  then show ?thesis
    using assms by (simp add: cut_name_def slice_from_def Let_def max_def)
qed

lemma replicate_small: "replicate 3 c = [c, c, c]" "replicate 2 c = [c, c]"
  by (simp_all add: numeral_3_eq_3 numeral_2_eq_2)

lemma digit_chars:
  "char_of (52::nat) = CHR ''4''" "char_of (48::nat) = CHR ''0''" "char_of (50::nat) = CHR ''2''"
  by code_simp+

text \<open>
  C7.  A name longer than \<open>name_max_width = max_width - 12\<close> is to be cut to exactly
  \<open>name_max_width\<close> characters without the call failing.  At \<open>max_width = 13\<close> the slice
  starts at \<open>-1 + 1 = 0\<close> and keeps the whole name, so the label of \<open>wlan0\<close> is the six
  characters \<open>_wlan0\<close> for a width of one; at \<open>max_width = 5\<close> the width is negative and
  formatting the header raises \<open>ValueError\<close>.
\<close>

theorem msg_curse_narrow_width:
  "cut_name ''wlan0'' (13 - 12) = ''_wlan0''
   \<and> msg_curse example_env (example_plugin [example_wlan0]) (Some example_args) (Some 13) =
       Inr [curse_add_line ''NETWORK'' (Some (VStr ''TITLE'')) None None,
            curse_add_line ''   Rx/s'' None None None,
            curse_add_line ''   Tx/s'' None None None,
            curse_new_line,
            curse_add_line ''_wlan0'' None None None,
            curse_add_line '' MAC: aa:bb'' None None None,
            curse_add_line ''  4000b'' (Some (VStr ''DEFAULT'')) None None,
            curse_add_line ''  2000b'' (Some (VStr ''DEFAULT'')) None None]
   \<and> msg_curse example_env (example_plugin [example_wlan0]) (Some example_args) (Some 5)
       = Inl ValueError"
  apply (simp add: msg_curse_def example_plugin_def example_wlan0_def example_args_def
      header_cells_def format_width_def format_right_def network_row_def not_up_def item_def
      get_key_def example_env_def example_get_views_def shown_name_def if_real_name_def
      before_colon_def cut_name_def slice_from_def row_values_def scaled_int_def
      value_cells_def str_int_def Let_def str_nat.simps)
  apply (simp add: replicate_small digit_chars)
  done

end
